theory Spec2Isabelle
  imports Main
begin

section \<open>Values exchanged with the kernel\<close>

text \<open>
  The payloads of kernel messages are JSON values. The code inspects them in one place
  only, the JavaScript truth test of \<^verbatim>\<open>msg.content.data[...]\<close>: \<^verbatim>\<open>null\<close>,
  \<^verbatim>\<open>false\<close>, the number zero and the empty string are falsy, every array and every
  object is truthy. Numbers are kept as integers: the code never computes with them.
\<close>

datatype json =
    JNull
  | JBool bool
  | JNum int
  | JStr string
  | JArr "json list"
  | JObj "(string \<times> json) list"

fun truthy :: "json \<Rightarrow> bool" where
  "truthy JNull = False"
| "truthy (JBool b) = b"
| "truthy (JNum n) = (n \<noteq> 0)"
| "truthy (JStr s) = (s \<noteq> [])"
| "truthy (JArr xs) = True"
| "truthy (JObj kvs) = True"

definition widget_state_mime :: string where
  "widget_state_mime = ''application/vnd.jupyter.widget-state+json''"

definition widget_target :: string where
  "widget_target = ''jupyter.widget''"

text \<open>
  An IOPub message, as far as the handler reads it: \<^verbatim>\<open>msg.header.msg_type\<close> and
  \<^verbatim>\<open>msg.content.data\<close>. \<open>content_data\<close> is \<open>None\<close> when \<^verbatim>\<open>"data" in msg.content\<close>
  is false; otherwise it is the MIME bundle, an object whose keys are MIME types, kept as
  an association list and read with \<open>map_of\<close>.
\<close>

record iopub_msg =
  msg_type :: string
  content_data :: "(string \<times> json) list option"

text \<open>The outcome of a promise, supplied by the environment when it settles.\<close>

datatype outcome = Resolved | Rejected string

section \<open>Objects, references and effects\<close>

type_synonym kernel_id = nat
type_synonym future_id = nat
type_synonym area_ref = nat
type_synonym manager_ref = nat
type_synonym promise_ref = nat
type_synonym callback = nat

text \<open>
  The native Comm handed to the comm-open callback. Its id and target name never change;
  its two callback slots \<^verbatim>\<open>onMsg\<close> and \<^verbatim>\<open>onClose\<close> are mutable and live in the
  state, keyed by the Comm's id.
\<close>

record comm =
  commId :: string
  targetName :: string

text \<open>
  The object literal \<^verbatim>\<open>classicComm\<close>: two data fields and five methods that close over
  the native \<^verbatim>\<open>comm\<close>. The methods are the functions \<open>on_msg\<close>, \<open>on_close\<close>,
  \<open>send\<close>, \<open>close\<close> and \<open>open_comm\<close> below, applied to the view.
\<close>

record classic_comm =
  comm_id :: string
  target_name :: string
  native :: comm

datatype logarg =
    AStr string
  | ACode "string option"
  | AMsg iopub_msg
  | AJson json
  | AErr string

text \<open>
  Every call the code makes into a library or the console is recorded, in order, as an
  effect. The behaviour of the libraries themselves (JupyterLab services, the output area,
  the widget manager) is outside the repository.
\<close>

datatype effect =
    ConsoleLog "logarg list"
  | ConsoleError "logarg list"
  | ModelClear area_ref
  | RequestExecute kernel_id string future_id
  | SetOnIOPub future_id
  | BindFuture area_ref future_id
  | SetState manager_ref json promise_ref
  | RegisterCommTarget kernel_id string
  | HandleCommOpen manager_ref classic_comm json
  | CommSend string json "json option" "nat list list option"
  | CommClose string
  | Invoke callback json

text \<open>
  The state: the component's React state and refs (\<open>editorRef\<close>, \<open>kernel\<close>,
  \<open>outputArea\<close>, \<open>kernelStarted\<close>, \<open>managerRef\<close>), and the mutable objects they point
  to, one field per attribute, indexed by reference:
  \<^item> \<open>model_of a\<close> and \<open>future_of a\<close>: the output model and the bound future of the
    OutputArea \<open>a\<close>;
  \<^item> \<open>onIOPub f\<close>: the handler installed on the future \<open>f\<close>; the closure captures the
    OutputArea (the value stored) and the future itself;
  \<^item> \<open>done_handlers\<close>: the futures whose \<^verbatim>\<open>done\<close> promise has the then/catch pair;
  \<^item> \<open>pending p\<close>: the widget state whose \<^verbatim>\<open>set_state\<close> promise \<open>p\<close> has not settled;
  \<^item> \<open>commTargets\<close>: the comm targets registered, per kernel;
  \<^item> \<open>comm_onMsg\<close>, \<open>comm_onClose\<close>: the callback slots of the native Comms;
  \<^item> \<open>heap_top\<close>: the next fresh reference;
  \<^item> \<open>trace\<close>: the effects so far.
  \<open>editorRef\<close> holds what \<^verbatim>\<open>getValue()\<close> of the mounted editor returns.
\<close>

record state =
  editorRef :: "string option"
  kernel :: "kernel_id option"
  outputArea :: "area_ref option"
  kernelStarted :: bool
  managerRef :: "manager_ref option"
  model_of :: "area_ref \<Rightarrow> json list"
  future_of :: "area_ref \<Rightarrow> future_id option"
  onIOPub :: "future_id \<Rightarrow> area_ref option"
  done_handlers :: "future_id list"
  pending :: "promise_ref \<Rightarrow> json option"
  commTargets :: "(kernel_id \<times> string) list"
  comm_onMsg :: "string \<Rightarrow> callback option"
  comm_onClose :: "string \<Rightarrow> callback option"
  heap_top :: nat
  trace :: "effect list"

definition emit :: "effect list \<Rightarrow> state \<Rightarrow> state" where
  "emit es s = s\<lparr>trace := trace s @ es\<rparr>"

definition initial :: state where
  "initial = \<lparr>editorRef = None, kernel = None, outputArea = None, kernelStarted = False,
     managerRef = None, model_of = (\<lambda>a. []), future_of = (\<lambda>a. None),
     onIOPub = (\<lambda>f. None), done_handlers = [], pending = (\<lambda>p. None), commTargets = [],
     comm_onMsg = (\<lambda>c. None), comm_onClose = (\<lambda>c. None), heap_top = 0, trace = []\<rparr>"

text \<open>The effects a step added: the part of the later trace beyond the earlier one.\<close>

definition effects :: "state \<Rightarrow> state \<Rightarrow> effect list" where
  "effects s s' = drop (length (trace s)) (trace s')"

section \<open>The Channel Adapter (\<^verbatim>\<open>classicComm\<close>)\<close>

definition classicComm :: "comm \<Rightarrow> classic_comm" where
  "classicComm c = \<lparr>comm_id = commId c, target_name = targetName c, native = c\<rparr>"

text \<open>\<^verbatim>\<open>on_msg\<close> stores a wrapper that calls \<open>callback\<close> with the message.\<close>

definition on_msg :: "classic_comm \<Rightarrow> callback \<Rightarrow> state \<Rightarrow> state" where
  "on_msg v cb s = s\<lparr>comm_onMsg := (comm_onMsg s)(commId (native v) \<mapsto> cb)\<rparr>"

definition on_close :: "classic_comm \<Rightarrow> callback \<Rightarrow> state \<Rightarrow> state" where
  "on_close v cb s = s\<lparr>comm_onClose := (comm_onClose s)(commId (native v) \<mapsto> cb)\<rparr>"

text \<open>Each method returns its result and the new state.\<close>

definition send ::
  "classic_comm \<Rightarrow> json \<Rightarrow> 'cbs \<Rightarrow> json option \<Rightarrow> nat list list option \<Rightarrow> state \<Rightarrow> string \<times> state"
where
  "send v data callbacks metadata buffers s =
     (commId (native v), emit [CommSend (commId (native v)) data metadata buffers] s)"

definition close :: "classic_comm \<Rightarrow> state \<Rightarrow> string \<times> state" where
  "close v s = (commId (native v), emit [CommClose (commId (native v))] s)"

definition open_comm :: "classic_comm \<Rightarrow> state \<Rightarrow> string \<times> state" where
  "open_comm v s =
     (commId (native v),
      emit [ConsoleLog [AStr ''Comm channel opened'', AStr (targetName (native v))]] s)"

text \<open>
  A message, or a close notification, arriving on a native Comm runs whatever its slot
  holds: the wrapper installed by \<open>on_msg\<close> (\<open>on_close\<close>) calls the callback with the
  message.
\<close>

definition comm_msg :: "string \<Rightarrow> json \<Rightarrow> state \<Rightarrow> state" where
  "comm_msg cid m s =
     (case comm_onMsg s cid of None \<Rightarrow> s | Some cb \<Rightarrow> emit [Invoke cb m] s)"

definition comm_closed :: "string \<Rightarrow> json \<Rightarrow> state \<Rightarrow> state" where
  "comm_closed cid m s =
     (case comm_onClose s cid of None \<Rightarrow> s | Some cb \<Rightarrow> emit [Invoke cb m] s)"

section \<open>The Comm Registrar and the start of a kernel\<close>

text \<open>
  The callback given to \<^verbatim>\<open>registerCommTarget\<close>: build the view, then
  \<^verbatim>\<open>managerRef.current?.handle_comm_open(classicComm, msg)\<close>.
\<close>

definition commTarget_callback :: "comm \<Rightarrow> json \<Rightarrow> state \<Rightarrow> state" where
  "commTarget_callback c m s =
     (let classicComm = classicComm c
      in case managerRef s of
           None \<Rightarrow> s
         | Some mgr \<Rightarrow> emit [HandleCommOpen mgr classicComm m] s)"

text \<open>
  The kernel delivers a comm-open event to the callback registered for the Comm's target
  name on that kernel, if there is one.
\<close>

definition comm_open :: "kernel_id \<Rightarrow> comm \<Rightarrow> json \<Rightarrow> state \<Rightarrow> state" where
  "comm_open k c m s =
     (if (k, targetName c) \<in> set (commTargets s) then commTarget_callback c m s else s)"

text \<open>
  The body of \<^verbatim>\<open>kernelManager.startNew().then(async (kernel) => ...)\<close>. \<open>ctx\<close> is
  the outcome of \<^verbatim>\<open>await createFakeContext(kernel)\<close>: a rejection leaves the body and
  reaches the \<^verbatim>\<open>catch\<close>, after \<^verbatim>\<open>setKernel\<close>. \<open>outputRef\<close> tells whether
  \<^verbatim>\<open>outputRef.current\<close> is set. A new OutputArea has an empty model and no future.
  The effect that starts the kernel runs when the token is non-empty; its settling is an
  event supplied by the environment.
\<close>

definition kernel_started :: "kernel_id \<Rightarrow> outcome \<Rightarrow> bool \<Rightarrow> state \<Rightarrow> state" where
  "kernel_started k ctx outputRef s =
     (let s1 = s\<lparr>kernel := Some k\<rparr>
      in case ctx of
           Rejected err \<Rightarrow> emit [ConsoleError [AStr ''Kernel start error:'', AErr err]] s1
         | Resolved \<Rightarrow>
             (let mgr = heap_top s1;
                  s2 = s1\<lparr>managerRef := Some mgr, heap_top := Suc mgr\<rparr>;
                  s3 = emit [RegisterCommTarget k widget_target,
                             ConsoleLog [AStr ''Widget manager initialized'']]
                         (s2\<lparr>commTargets := (k, widget_target) # commTargets s2\<rparr>);
                  s4 = (if outputRef
                        then (let a = heap_top s3
                              in s3\<lparr>outputArea := Some a,
                                    model_of := (model_of s3)(a := []),
                                    future_of := (future_of s3)(a := None),
                                    heap_top := Suc a\<rparr>)
                        else s3)
              in s4\<lparr>kernelStarted := True\<rparr>))"

text \<open>The \<^verbatim>\<open>catch\<close> of a failed \<^verbatim>\<open>startNew()\<close>.\<close>

definition kernel_start_failed :: "string \<Rightarrow> state \<Rightarrow> state" where
  "kernel_start_failed err s = emit [ConsoleError [AStr ''Kernel start error:'', AErr err]] s"

definition handleEditorDidMount :: "string \<Rightarrow> state \<Rightarrow> state" where
  "handleEditorDidMount editor s = s\<lparr>editorRef := Some editor\<rparr>"

section \<open>The Execution Coordinator\<close>

text \<open>
  The condition under which the handler of \<^verbatim>\<open>src/App.tsx\<close> hands a payload to the
  widget manager: the message is a \<^verbatim>\<open>display_data\<close>, its content has \<^verbatim>\<open>data\<close>,
  and the value under the widget-state MIME key is truthy.
\<close>

definition widgetState :: "iopub_msg \<Rightarrow> json option" where
  "widgetState m =
     (if msg_type m = ''display_data''
      then (case content_data m of
              None \<Rightarrow> None
            | Some d \<Rightarrow>
                (case map_of d widget_state_mime of
                   None \<Rightarrow> None
                 | Some v \<Rightarrow> if truthy v then Some v else None))
      else None)"

text \<open>
  The handler \<^verbatim>\<open>future.onIOPub\<close> of \<^verbatim>\<open>src/App.tsx\<close>, for the closure over the
  OutputArea \<open>a\<close> and the future \<open>f\<close>. \<^verbatim>\<open>managerRef.current\<close> is read when the message
  arrives; with no manager the optional chain ends there and nothing is called.
  The assignment \<^verbatim>\<open>outputArea.future = future\<close> calls a setter of the OutputArea
  library. The model records the call (the effect \<open>BindFuture\<close>) and the binding it
  stores. What else the setter does inside the library, such as taking over the message
  callback of the future and rendering later messages into the model, is not in the
  repository and is not modelled. The properties below are therefore about single calls
  of the component's code: a call of \<^verbatim>\<open>executeCode\<close>, and the handling of a message
  that reaches the component's handler.
\<close>

definition onIOPub_handler :: "area_ref \<Rightarrow> future_id \<Rightarrow> iopub_msg \<Rightarrow> state \<Rightarrow> state" where
  "onIOPub_handler a f m s =
     (let s1 = emit [BindFuture a f] (s\<lparr>future_of := (future_of s)(a \<mapsto> f)\<rparr>);
          s2 = (case widgetState m of
                  None \<Rightarrow> s1
                | Some ws \<Rightarrow>
                    (case managerRef s1 of
                       None \<Rightarrow> s1
                     | Some mgr \<Rightarrow>
                         (let p = heap_top s1
                          in emit [SetState mgr ws p]
                               (s1\<lparr>pending := (pending s1)(p \<mapsto> ws), heap_top := Suc p\<rparr>))))
      in emit [ConsoleLog [AStr ''Message received:'', AMsg m]] s2)"

text \<open>The handler of the reduced variant (\<^verbatim>\<open>unnamed/part_000\<close>).\<close>

definition onIOPub_handler_reduced ::
  "area_ref \<Rightarrow> future_id \<Rightarrow> iopub_msg \<Rightarrow> state \<Rightarrow> state"
where
  "onIOPub_handler_reduced a f m s =
     (let s1 = emit [BindFuture a f] (s\<lparr>future_of := (future_of s)(a \<mapsto> f)\<rparr>)
      in emit [ConsoleLog [AStr ''Message received:'', AMsg m]] s1)"

text \<open>
  \<^verbatim>\<open>executeCode\<close>. \<^verbatim>\<open>editorRef.current?.getValue()\<close> is undefined without an
  editor; \<^verbatim>\<open>code\<close> is truthy when it is a non-empty string.
  \<^verbatim>\<open>kernel.requestExecute\<close> returns a new future.
\<close>

definition executeCode :: "state \<Rightarrow> state" where
  "executeCode s =
     (let code = editorRef s;
          s0 = emit [ConsoleLog [AStr ''Executing code:'', ACode code]] s
      in case (kernel s0, code, outputArea s0) of
           (Some k, Some c, Some a) \<Rightarrow>
             (if c \<noteq> []
              then (let s1 = emit [ModelClear a] (s0\<lparr>model_of := (model_of s0)(a := [])\<rparr>);
                        future = heap_top s1;
                        s2 = emit [RequestExecute k c future] (s1\<lparr>heap_top := Suc future\<rparr>);
                        s3 = emit [SetOnIOPub future] (s2\<lparr>onIOPub := (onIOPub s2)(future \<mapsto> a)\<rparr>)
                    in s3\<lparr>done_handlers := future # done_handlers s3\<rparr>)
              else s0)
         | (ko, _, ao) \<Rightarrow>
             (let s1 = (if ko = None then emit [ConsoleError [AStr ''Kernel not initialized.'']] s0
                        else s0)
              in if ao = None then emit [ConsoleError [AStr ''Output area not initialized.'']] s1
                 else s1))"

text \<open>
  The continuations of \<^verbatim>\<open>set_state(widgetState).then(...).catch(...)\<close>, run when the
  promise \<open>p\<close> settles.
\<close>

definition set_state_settled :: "promise_ref \<Rightarrow> outcome \<Rightarrow> state \<Rightarrow> state" where
  "set_state_settled p oc s =
     (case pending s p of
        None \<Rightarrow> s
      | Some ws \<Rightarrow>
          (let s1 = s\<lparr>pending := (pending s)(p := None)\<rparr>
           in case oc of
                Resolved \<Rightarrow>
                  emit [ConsoleLog [AStr ''Widget state has been applied successfully:'',
                                    AJson ws]] s1
              | Rejected err \<Rightarrow>
                  emit [ConsoleError [AStr ''Failed to apply widget state:'', AErr err]] s1))"

text \<open>The continuations of \<^verbatim>\<open>future.done.then(...).catch(...)\<close>.\<close>

definition future_done :: "future_id \<Rightarrow> outcome \<Rightarrow> state \<Rightarrow> state" where
  "future_done f oc s =
     (if f \<in> set (done_handlers s)
      then (let s1 = s\<lparr>done_handlers := removeAll f (done_handlers s)\<rparr>
            in case oc of
                 Resolved \<Rightarrow> emit [ConsoleLog [AStr ''Execution completed'']] s1
               | Rejected err \<Rightarrow> emit [ConsoleError [AStr ''Execution error:'', AErr err]] s1)
      else s)"

section \<open>Histories of the component\<close>

text \<open>
  What can happen to the component, one event at a time: a kernel start settles, the
  editor mounts or its text changes, the user presses Run Code, the kernel delivers an
  IOPub message to a future, a promise settles, the kernel opens a Comm or delivers
  traffic on one, and the widget runtime calls a method of a view. The editor and the
  button are rendered only once \<open>kernelStarted\<close> is set. The cleanup of the effect
  (the best-effort \<^verbatim>\<open>kernel?.shutdown()\<close>) touches nothing of this state and is left
  out.
\<close>

datatype event =
    KernelStarted kernel_id outcome bool
  | KernelStartFailed string
  | EditorDidMount string
  | EditorEdit string
  | RunCode
  | IOPub future_id iopub_msg
  | SetStateSettled promise_ref outcome
  | FutureDone future_id outcome
  | CommOpen kernel_id comm json
  | CommMsg string json
  | CommClosed string json
  | ViewOnMsg classic_comm callback
  | ViewOnClose classic_comm callback
  | ViewSend classic_comm json "json option" "nat list list option"
  | ViewClose classic_comm
  | ViewOpen classic_comm

fun step :: "event \<Rightarrow> state \<Rightarrow> state" where
  "step (KernelStarted k ctx outputRef) s = kernel_started k ctx outputRef s"
| "step (KernelStartFailed err) s = kernel_start_failed err s"
| "step (EditorDidMount text) s = (if kernelStarted s then handleEditorDidMount text s else s)"
| "step (EditorEdit text) s = (if editorRef s = None then s else s\<lparr>editorRef := Some text\<rparr>)"
| "step RunCode s = (if kernelStarted s then executeCode s else s)"
| "step (IOPub f m) s = (case onIOPub s f of None \<Rightarrow> s | Some a \<Rightarrow> onIOPub_handler a f m s)"
| "step (SetStateSettled p oc) s = set_state_settled p oc s"
| "step (FutureDone f oc) s = future_done f oc s"
| "step (CommOpen k c m) s = comm_open k c m s"
| "step (CommMsg cid m) s = comm_msg cid m s"
| "step (CommClosed cid m) s = comm_closed cid m s"
| "step (ViewOnMsg v cb) s = on_msg v cb s"
| "step (ViewOnClose v cb) s = on_close v cb s"
| "step (ViewSend v d md bs) s = snd (send v d () md bs s)"
| "step (ViewClose v) s = snd (close v s)"
| "step (ViewOpen v) s = snd (open_comm v s)"

fun run :: "event list \<Rightarrow> state \<Rightarrow> state" where
  "run [] s = s"
| "run (x # xs) s = run xs (step x s)"

section \<open>Invariants of the histories\<close>

text \<open>
  Two facts that hold after every history from the initial state. The widget manager is
  created before the comm target is registered and before the OutputArea is stored, and
  \<open>managerRef\<close> is never reset; and a future that has a handler, or that some OutputArea
  is or was bound to, was returned by an earlier \<^verbatim>\<open>requestExecute\<close>.
\<close>

definition has_manager :: "state \<Rightarrow> bool" where
  "has_manager s \<longleftrightarrow>
     (outputArea s \<noteq> None \<longrightarrow> managerRef s \<noteq> None) \<and>
     (commTargets s \<noteq> [] \<longrightarrow> managerRef s \<noteq> None) \<and>
     (\<forall>f. onIOPub s f \<noteq> None \<longrightarrow> managerRef s \<noteq> None)"

definition futures_allocated :: "state \<Rightarrow> bool" where
  "futures_allocated s \<longleftrightarrow>
     (\<forall>f. onIOPub s f \<noteq> None \<longrightarrow> f < heap_top s) \<and>
     (\<forall>a f. future_of s a = Some f \<longrightarrow> f < heap_top s) \<and>
     (\<forall>a f. BindFuture a f \<in> set (trace s) \<longrightarrow> f < heap_top s)"

section \<open>Vocabulary of the properties\<close>

text \<open>
  The specification's condition for hydration, in its own words: the message's kind is
  \<^verbatim>\<open>display_data\<close> and the data mapping of its content contains the widget-state MIME
  key.
\<close>

definition contains_widget_state_key :: "iopub_msg \<Rightarrow> bool" where
  "contains_widget_state_key m \<longleftrightarrow>
     msg_type m = ''display_data'' \<and>
     (case content_data m of None \<Rightarrow> False | Some d \<Rightarrow> map_of d widget_state_mime \<noteq> None)"

fun is_set_state :: "effect \<Rightarrow> bool" where
  "is_set_state (SetState mgr ws p) = True"
| "is_set_state e = False"

fun is_handle_comm_open :: "effect \<Rightarrow> bool" where
  "is_handle_comm_open (HandleCommOpen mgr v m) = True"
| "is_handle_comm_open e = False"

fun is_comm_open :: "event \<Rightarrow> bool" where
  "is_comm_open (CommOpen k c m) = True"
| "is_comm_open x = False"




text \<open>A stream of messages handled one after the other by the same handler.\<close>

fun handle_stream :: "(iopub_msg \<Rightarrow> state \<Rightarrow> state) \<Rightarrow> iopub_msg list \<Rightarrow> state \<Rightarrow> state" where
  "handle_stream h [] s = s"
| "handle_stream h (m # ms) s = handle_stream h ms (h m s)"



text \<open>
  Concrete states used as examples: a started kernel (kernel 7, widget manager 0,
  OutputArea 1) with the editor mounted, showing \<^verbatim>\<open>1+1\<close> or nothing.
\<close>

definition ready :: state where
  "ready = run [KernelStarted 7 Resolved True, EditorDidMount ''1+1''] initial"

definition ready_empty :: state where
  "ready_empty = run [KernelStarted 7 Resolved True, EditorDidMount []] initial"


text \<open>The same after Run Code: the future 2 is outstanding, with its handler.\<close>

definition running :: state where
  "running = run [KernelStarted 7 Resolved True, EditorDidMount ''1+1'', RunCode] initial"

text \<open>
  Two \<^verbatim>\<open>display_data\<close> messages: one whose data holds the empty string under the
  widget-state MIME key, one that holds the state of a widget model.
\<close>

definition empty_state_msg :: iopub_msg where
  "empty_state_msg =
     \<lparr>msg_type = ''display_data'', content_data = Some [(widget_state_mime, JStr [])]\<rparr>"

definition widget_state_msg :: iopub_msg where
  "widget_state_msg =
     \<lparr>msg_type = ''display_data'',
      content_data = Some [(''text/plain'', JStr ''Widget''),
                           (widget_state_mime, JObj [(''model-A'', JObj [])])]\<rparr>"


text \<open>The same after a message with widget state: the promise 3 is pending.\<close>

definition hydrating :: state where
  "hydrating = run [KernelStarted 7 Resolved True, EditorDidMount ''1+1'', RunCode,
                    IOPub 2 widget_state_msg] initial"


section \<open>Basic facts: the trace only grows\<close>

lemma effects_emit [simp]: "effects s (emit es s) = es"
  by (simp add: effects_def emit_def)

lemma emit_reset_trace [simp]: "(emit es s)\<lparr>trace := trace s\<rparr> = s"
  by (simp add: emit_def)

lemma trace_emit [simp]: "trace (emit es s) = trace s @ es"
  by (simp add: emit_def)

lemma emit_fields [simp]:
  "editorRef (emit es s) = editorRef s"
  "kernel (emit es s) = kernel s"
  "outputArea (emit es s) = outputArea s"
  "kernelStarted (emit es s) = kernelStarted s"
  "managerRef (emit es s) = managerRef s"
  "model_of (emit es s) = model_of s"
  "future_of (emit es s) = future_of s"
  "onIOPub (emit es s) = onIOPub s"
  "done_handlers (emit es s) = done_handlers s"
  "pending (emit es s) = pending s"
  "commTargets (emit es s) = commTargets s"
  "comm_onMsg (emit es s) = comm_onMsg s"
  "comm_onClose (emit es s) = comm_onClose s"
  "heap_top (emit es s) = heap_top s"
  by (simp_all add: emit_def)

lemma trace_handler: "\<exists>es. trace (onIOPub_handler a f m s) = trace s @ es"
  by (simp add: onIOPub_handler_def Let_def split: option.split)

lemma trace_executeCode: "\<exists>es. trace (executeCode s) = trace s @ es"
  by (simp add: executeCode_def Let_def split: option.split)

lemma trace_kernel_started: "\<exists>es. trace (kernel_started k ctx r s) = trace s @ es"
  by (simp add: kernel_started_def Let_def split: outcome.split)

lemma trace_step: "\<exists>es. trace (step x s) = trace s @ es"
proof (cases x)
  case (KernelStarted k ctx r) then show ?thesis by (simp add: trace_kernel_started)
next
  case RunCode then show ?thesis by (simp add: trace_executeCode)
next
  case (IOPub f m) then show ?thesis by (simp add: trace_handler split: option.split)
qed (simp_all add: kernel_start_failed_def handleEditorDidMount_def set_state_settled_def
      future_done_def comm_open_def commTarget_callback_def comm_msg_def comm_closed_def
      on_msg_def on_close_def send_def close_def open_comm_def Let_def
      split: option.split outcome.split)

lemma trace_run: "\<exists>es. trace (run xs s) = trace s @ es"
proof (induction xs arbitrary: s)
  case Nil show ?case by simp
next
  case (Cons x xs)
  obtain es1 where "trace (step x s) = trace s @ es1" using trace_step by blast
  moreover obtain es2 where "trace (run xs (step x s)) = trace (step x s) @ es2"
    using Cons.IH by blast
  ultimately show ?case by simp
qed

lemma trace_effects: "trace (run xs s) = trace s @ effects s (run xs s)"
proof -
  obtain es where "trace (run xs s) = trace s @ es" using trace_run by blast
  then show ?thesis by (simp add: effects_def)
qed

section \<open>The invariants hold after every history\<close>

lemma has_manager_step: "has_manager s \<Longrightarrow> has_manager (step x s)"
proof (cases x)
  case (KernelStarted k ctx r)
  assume "has_manager s"
  with KernelStarted show ?thesis
    by (simp add: has_manager_def kernel_started_def emit_def Let_def split: outcome.split)
next
  case RunCode
  assume "has_manager s"
  with RunCode show ?thesis
    by (simp add: has_manager_def executeCode_def emit_def Let_def split: option.split)
next
  case (IOPub f m)
  assume "has_manager s"
  with IOPub show ?thesis
    by (auto simp add: has_manager_def onIOPub_handler_def emit_def Let_def split: option.split)
next
  case (CommOpen k c m)
  assume "has_manager s"
  with CommOpen show ?thesis
    by (auto simp add: has_manager_def comm_open_def commTarget_callback_def emit_def
        split: option.split)
qed (simp_all add: has_manager_def kernel_start_failed_def handleEditorDidMount_def
      set_state_settled_def future_done_def comm_msg_def comm_closed_def
      on_msg_def on_close_def send_def close_def open_comm_def Let_def emit_def
      split: option.split outcome.split)

lemma futures_allocated_step: "futures_allocated s \<Longrightarrow> futures_allocated (step x s)"
proof (cases x)
  case (KernelStarted k ctx r)
  assume "futures_allocated s"
  with KernelStarted show ?thesis
    by (auto simp add: futures_allocated_def kernel_started_def emit_def Let_def less_Suc_eq
        split: outcome.split)
next
  case RunCode
  assume "futures_allocated s"
  with RunCode show ?thesis
    by (auto simp add: futures_allocated_def executeCode_def emit_def Let_def less_Suc_eq
        split: option.split)
next
  case (IOPub f m)
  assume "futures_allocated s"
  with IOPub show ?thesis
    by (auto simp add: futures_allocated_def onIOPub_handler_def emit_def Let_def less_Suc_eq
        split: option.split)
qed (auto simp add: futures_allocated_def kernel_start_failed_def handleEditorDidMount_def
      set_state_settled_def future_done_def comm_open_def commTarget_callback_def
      comm_msg_def comm_closed_def on_msg_def on_close_def send_def close_def open_comm_def
      Let_def emit_def split: option.split outcome.split)

lemma has_manager_run: "has_manager s \<Longrightarrow> has_manager (run xs s)"
  by (induction xs arbitrary: s) (simp_all add: has_manager_step)

lemma futures_allocated_run: "futures_allocated s \<Longrightarrow> futures_allocated (run xs s)"
  by (induction xs arbitrary: s) (simp_all add: futures_allocated_step)

lemma has_manager_initial: "has_manager initial"
  by (simp add: has_manager_def initial_def)

lemma futures_allocated_initial: "futures_allocated initial"
  by (simp add: futures_allocated_def initial_def)


section \<open>The four cases of \<^verbatim>\<open>executeCode\<close>\<close>

lemma executeCode_submit:
  assumes "kernel s = Some k" and "outputArea s = Some a" and "editorRef s = Some c" and "c \<noteq> []"
  shows "executeCode s =
     s\<lparr>model_of := (model_of s)(a := []),
       heap_top := Suc (heap_top s),
       onIOPub := (onIOPub s)(heap_top s \<mapsto> a),
       done_handlers := heap_top s # done_handlers s,
       trace := trace s @ [ConsoleLog [AStr ''Executing code:'', ACode (Some c)],
                           ModelClear a,
                           RequestExecute k c (heap_top s),
                           SetOnIOPub (heap_top s)]\<rparr>"
  using assms by (simp add: executeCode_def emit_def Let_def)

lemma executeCode_no_code:
  assumes "kernel s = Some k" and "outputArea s = Some a"
    and "editorRef s = None \<or> editorRef s = Some []"
  shows "executeCode s = emit [ConsoleLog [AStr ''Executing code:'', ACode (editorRef s)]] s"
  using assms by (auto simp add: executeCode_def emit_def Let_def)

lemma executeCode_no_kernel:
  "kernel s = None \<Longrightarrow> executeCode s =
     emit (ConsoleLog [AStr ''Executing code:'', ACode (editorRef s)]
       # ConsoleError [AStr ''Kernel not initialized.'']
       # (if outputArea s = None then [ConsoleError [AStr ''Output area not initialized.'']]
          else [])) s"
  by (simp add: executeCode_def emit_def Let_def split: option.split)

lemma executeCode_no_area:
  "outputArea s = None \<Longrightarrow> executeCode s =
     emit (ConsoleLog [AStr ''Executing code:'', ACode (editorRef s)]
       # (if kernel s = None then [ConsoleError [AStr ''Kernel not initialized.'']] else [])
       @ [ConsoleError [AStr ''Output area not initialized.'']]) s"
  by (simp add: executeCode_def emit_def Let_def split: option.split)

lemma independent_executeCode:
  "executeCode (s\<lparr>trace := tr\<rparr>) = (executeCode s)\<lparr>trace := tr @ effects s (executeCode s)\<rparr>"
proof (cases "kernel s")
  case None
  then show ?thesis by (simp add: executeCode_no_kernel emit_def effects_def)
next
  case (Some k)
  note k = this
  show ?thesis
  proof (cases "outputArea s")
    case None
    then show ?thesis by (simp add: executeCode_no_area emit_def effects_def)
  next
    case (Some a)
    note a = this
    show ?thesis
    proof (cases "editorRef s = None \<or> editorRef s = Some []")
      case True
      then have "editorRef (s\<lparr>trace := tr\<rparr>) = None \<or> editorRef (s\<lparr>trace := tr\<rparr>) = Some []"
        by simp
      with k a True show ?thesis
        by (simp add: executeCode_no_code [where k = k and a = a] emit_def effects_def)
    next
      case False
      then obtain c where c: "editorRef s = Some c" "c \<noteq> []" by auto
      with k a show ?thesis
        by (simp add: executeCode_submit [where k = k and a = a and c = c] effects_def)
    qed
  qed
qed

section \<open>No operation reads the trace\<close>

lemma effects_same [simp]: "effects s s = []"
  by (simp add: effects_def)

lemma independent_kernel_started:
  "kernel_started k ctx r (s\<lparr>trace := tr\<rparr>) =
     (kernel_started k ctx r s)\<lparr>trace := tr @ effects s (kernel_started k ctx r s)\<rparr>"
  by (simp add: effects_def kernel_started_def emit_def Let_def split: outcome.split)

lemma independent_handler:
  "onIOPub_handler a f m (s\<lparr>trace := tr\<rparr>) =
     (onIOPub_handler a f m s)\<lparr>trace := tr @ effects s (onIOPub_handler a f m s)\<rparr>"
  by (simp add: effects_def onIOPub_handler_def emit_def Let_def split: option.split)

lemma independent_step:
  "step x (s\<lparr>trace := tr\<rparr>) = (step x s)\<lparr>trace := tr @ effects s (step x s)\<rparr>"
proof (cases x)
  case (KernelStarted k ctx r)
  then show ?thesis by (simp add: independent_kernel_started)
next
  case RunCode
  then show ?thesis by (simp add: independent_executeCode)
next
  case (IOPub f m)
  then show ?thesis by (simp add: independent_handler split: option.split)
next
  case (KernelStartFailed e)
  then show ?thesis by (simp add: kernel_start_failed_def emit_def effects_def)
next
  case (EditorDidMount t)
  then show ?thesis by (simp add: handleEditorDidMount_def effects_def)
next
  case (EditorEdit t)
  then show ?thesis by (simp add: effects_def)
next
  case (SetStateSettled p oc)
  then show ?thesis
    by (simp add: set_state_settled_def emit_def effects_def Let_def
        split: option.split outcome.split)
next
  case (FutureDone f oc)
  then show ?thesis
    by (simp add: future_done_def emit_def effects_def Let_def split: outcome.split)
next
  case (CommOpen k c m)
  then show ?thesis
    by (simp add: comm_open_def commTarget_callback_def emit_def effects_def
        split: option.split)
next
  case (CommMsg c m)
  then show ?thesis by (simp add: comm_msg_def emit_def effects_def split: option.split)
next
  case (CommClosed c m)
  then show ?thesis by (simp add: comm_closed_def emit_def effects_def split: option.split)
next
  case (ViewOnMsg v cb)
  then show ?thesis by (simp add: on_msg_def effects_def)
next
  case (ViewOnClose v cb)
  then show ?thesis by (simp add: on_close_def effects_def)
next
  case (ViewSend v d md bs)
  then show ?thesis by (simp add: send_def emit_def effects_def)
next
  case (ViewClose v)
  then show ?thesis by (simp add: close_def emit_def effects_def)
next
  case (ViewOpen v)
  then show ?thesis by (simp add: open_comm_def emit_def effects_def)
qed

lemma independent_run:
  "run xs (s\<lparr>trace := tr\<rparr>) = (run xs s)\<lparr>trace := tr @ effects s (run xs s)\<rparr>"
proof (induction xs arbitrary: s tr)
  case Nil
  show ?case by simp
next
  case (Cons x xs)
  have split: "effects s (step x s) @ effects (step x s) (run xs (step x s)) =
        effects s (run xs (step x s))"
  proof -
    obtain es1 where e1: "trace (step x s) = trace s @ es1" using trace_step by blast
    obtain es2 where e2: "trace (run xs (step x s)) = trace (step x s) @ es2"
      using trace_run by blast
    show ?thesis by (simp add: effects_def e1 e2)
  qed
  have "run (x # xs) (s\<lparr>trace := tr\<rparr>) =
        run xs ((step x s)\<lparr>trace := tr @ effects s (step x s)\<rparr>)"
    by (simp add: independent_step)
  also have "\<dots> = (run xs (step x s))\<lparr>trace :=
        (tr @ effects s (step x s)) @ effects (step x s) (run xs (step x s))\<rparr>"
    by (rule Cons.IH)
  finally show ?case by (simp add: split)
qed


section \<open>\<^verbatim>\<open>executeCode\<close>: the guard\<close>

text \<open>
  C1. When \<^verbatim>\<open>executeCode\<close> is called with no kernel or with no OutputArea, it never calls
  \<^verbatim>\<open>requestExecute\<close>, it reports \<^verbatim>\<open>Kernel not initialized.\<close> when the kernel is
  absent and \<^verbatim>\<open>Output area not initialized.\<close> when the OutputArea is absent, and it leaves
  every output model as it was: no model is cleared, and apart from the console lines
  the state is unchanged.
\<close>

theorem executeCode_precondition_guard:
  assumes "kernel s = None \<or> outputArea s = None"
  shows "effects s (executeCode s) =
           ConsoleLog [AStr ''Executing code:'', ACode (editorRef s)]
           # (if kernel s = None then [ConsoleError [AStr ''Kernel not initialized.'']] else [])
           @ (if outputArea s = None then [ConsoleError [AStr ''Output area not initialized.'']]
              else [])
       \<and> (\<forall>k c f. RequestExecute k c f \<notin> set (effects s (executeCode s)))
       \<and> (\<forall>a. ModelClear a \<notin> set (effects s (executeCode s)))
       \<and> model_of (executeCode s) = model_of s
       \<and> (executeCode s)\<lparr>trace := trace s\<rparr> = s"
proof (cases "kernel s = None")
  case True
  then show ?thesis by (simp add: executeCode_no_kernel)
next
  case False
  with assms have "outputArea s = None" by simp
  with False show ?thesis by (simp add: executeCode_no_area)
qed

theorem executeCode_precondition_guard_witness:
  "(kernel (initial\<lparr>outputArea := Some 0, model_of := (\<lambda>a. [JNum 2])\<rparr>) = None
      \<or> outputArea (initial\<lparr>outputArea := Some 0, model_of := (\<lambda>a. [JNum 2])\<rparr>) = None)
   \<and> effects (initial\<lparr>outputArea := Some 0, model_of := (\<lambda>a. [JNum 2])\<rparr>)
         (executeCode (initial\<lparr>outputArea := Some 0, model_of := (\<lambda>a. [JNum 2])\<rparr>)) =
       [ConsoleLog [AStr ''Executing code:'', ACode None],
        ConsoleError [AStr ''Kernel not initialized.'']]
   \<and> model_of (executeCode (initial\<lparr>outputArea := Some 0, model_of := (\<lambda>a. [JNum 2])\<rparr>)) 0
       = [JNum 2]"
  using executeCode_precondition_guard
    [of "initial\<lparr>outputArea := Some 0, model_of := (\<lambda>a. [JNum 2])\<rparr>"]
  by (simp add: initial_def)

section \<open>What the handler does\<close>

lemma handler_effects:
  "effects s (onIOPub_handler a f m s) =
     BindFuture a f
     # (case widgetState m of
          None \<Rightarrow> []
        | Some ws \<Rightarrow> (case managerRef s of
                        None \<Rightarrow> []
                      | Some mgr \<Rightarrow> [SetState mgr ws (heap_top s)]))
     @ [ConsoleLog [AStr ''Message received:'', AMsg m]]"
  by (simp add: onIOPub_handler_def effects_def emit_def Let_def split: option.split)

lemma handler_binds: "future_of (onIOPub_handler a f m s) a = Some f"
  by (simp add: onIOPub_handler_def emit_def Let_def split: option.split)

lemma ready_fields:
  "kernel ready = Some 7" "outputArea ready = Some 1" "editorRef ready = Some ''1+1''"
  "managerRef ready = Some 0" "heap_top ready = 2" "kernelStarted ready"
  "future_of ready = (\<lambda>a. None)" "onIOPub ready = (\<lambda>f. None)"
  "trace ready = [RegisterCommTarget 7 widget_target,
                  ConsoleLog [AStr ''Widget manager initialized'']]"
  by (simp_all add: ready_def initial_def kernel_started_def handleEditorDidMount_def
      emit_def Let_def)


lemma ready_empty_fields:
  "kernel ready_empty = Some 7" "outputArea ready_empty = Some 1"
  "editorRef ready_empty = Some []"
  by (simp_all add: ready_empty_def initial_def kernel_started_def handleEditorDidMount_def
      emit_def Let_def)

lemma running_eq: "running = executeCode ready"
  by (simp add: running_def ready_def initial_def kernel_started_def handleEditorDidMount_def
      emit_def Let_def)

lemma running_fields:
  "onIOPub running 2 = Some 1" "managerRef running = Some 0" "heap_top running = 3"
  "future_of running 1 = None" "model_of running 1 = []"
  by (simp_all add: running_eq executeCode_submit [where k = 7 and a = 1 and c = "''1+1''"]
      ready_fields)

section \<open>\<^verbatim>\<open>executeCode\<close>: clearing comes before submitting\<close>



section \<open>Where the OutputArea is bound\<close>

text \<open>
  C3, as stated, fails: in the state \<open>ready\<close> the call submits the code and returns with
  the OutputArea bound to no future; the call itself never assigns
  \<^verbatim>\<open>outputArea.future\<close>.
\<close>

theorem executeCode_binds_at_submission_counterexample:
  "kernel ready = Some 7 \<and> outputArea ready = Some 1 \<and> editorRef ready = Some ''1+1''
   \<and> RequestExecute 7 ''1+1'' 2 \<in> set (effects ready (executeCode ready))
   \<and> future_of (executeCode ready) 1 \<noteq> Some 2
   \<and> BindFuture 1 2 \<notin> set (effects ready (executeCode ready))"
  by (simp add: executeCode_submit [where k = 7 and a = 1 and c = "''1+1''"] ready_fields
      effects_def)

text \<open>
  C3, amended. A call of \<^verbatim>\<open>executeCode\<close> that submits code does not bind the OutputArea
  at submission: it leaves the binding of every OutputArea as it was, assigns
  \<^verbatim>\<open>outputArea.future\<close> nowhere, and installs the handler on the new future; after a
  history from the initial state the OutputArea is therefore not bound to the new future
  when the call returns. The OutputArea is bound to the new future only when the first
  message of that execution is handled.
\<close>

theorem executeCode_binds_on_first_message:
  assumes "kernel s = Some k" and "outputArea s = Some a"
    and "editorRef s = Some c" and "c \<noteq> []"
  shows "future_of (executeCode s) = future_of s
     \<and> (\<forall>a' f. BindFuture a' f \<notin> set (effects s (executeCode s)))
     \<and> (\<forall>pre. s = run pre initial \<longrightarrow> future_of (executeCode s) a \<noteq> Some (heap_top s))
     \<and> onIOPub (executeCode s) (heap_top s) = Some a
     \<and> (\<forall>m. future_of (step (IOPub (heap_top s) m) (executeCode s)) a = Some (heap_top s)
            \<and> BindFuture a (heap_top s)
                \<in> set (effects (executeCode s)
                          (step (IOPub (heap_top s) m) (executeCode s))))"
proof (intro conjI allI impI)
  note sub = executeCode_submit [OF assms]
  show same: "future_of (executeCode s) = future_of s" by (simp add: sub)
  show "\<And>a' f. BindFuture a' f \<notin> set (effects s (executeCode s))"
    by (simp add: sub effects_def)
  show h: "onIOPub (executeCode s) (heap_top s) = Some a" by (simp add: sub)
  show "\<And>m. future_of (step (IOPub (heap_top s) m) (executeCode s)) a = Some (heap_top s)"
    by (simp add: h handler_binds)
  show "\<And>m. BindFuture a (heap_top s)
      \<in> set (effects (executeCode s) (step (IOPub (heap_top s) m) (executeCode s)))"
    by (simp add: h handler_effects)
  fix pre assume "s = run pre initial"
  then have "futures_allocated s"
    by (simp add: futures_allocated_run futures_allocated_initial)
  then have "future_of s a \<noteq> Some (heap_top s)"
    by (auto simp add: futures_allocated_def)
  then show "future_of (executeCode s) a \<noteq> Some (heap_top s)" by (simp add: same)
qed

theorem executeCode_binds_on_first_message_witness:
  "kernel ready = Some 7 \<and> outputArea ready = Some 1 \<and> editorRef ready = Some ''1+1''
   \<and> ''1+1'' \<noteq> []
   \<and> ready = run [KernelStarted 7 Resolved True, EditorDidMount ''1+1''] initial
   \<and> future_of (executeCode ready) = future_of ready
   \<and> future_of (executeCode ready) 1 \<noteq> Some 2
   \<and> future_of (step (IOPub 2 widget_state_msg) (executeCode ready)) 1 = Some 2"
proof -
  have k: "kernel ready = Some 7" and a: "outputArea ready = Some 1"
    and e: "editorRef ready = Some ''1+1''" and n: "''1+1'' \<noteq> []"
    and h: "heap_top ready = 2"
    by (simp_all add: ready_fields)
  have r: "ready = run [KernelStarted 7 Resolved True, EditorDidMount ''1+1''] initial"
    by (simp add: ready_def)
  note t = executeCode_binds_on_first_message [OF k a e n]
  from t have f: "future_of (executeCode ready) = future_of ready" by blast
  from t have "\<forall>pre. ready = run pre initial \<longrightarrow>
      future_of (executeCode ready) 1 \<noteq> Some (heap_top ready)"
    by blast
  with r h have u: "future_of (executeCode ready) 1 \<noteq> Some 2" by metis
  from t have "\<forall>m. future_of (step (IOPub (heap_top ready) m) (executeCode ready)) 1
      = Some (heap_top ready)"
    by blast
  then have "future_of (step (IOPub (heap_top ready) widget_state_msg) (executeCode ready)) 1
      = Some (heap_top ready)"
    by (rule spec)
  then have b: "future_of (step (IOPub 2 widget_state_msg) (executeCode ready)) 1 = Some 2"
    unfolding h .
  from k a e n r f u b show ?thesis by blast
qed

section \<open>\<^verbatim>\<open>executeCode\<close> with no code\<close>

text \<open>
  C9, as stated, fails: with a kernel, an OutputArea and an empty editor the call is not
  silent. It writes the line \<^verbatim>\<open>Executing code:\<close> to the console, as every call does.
\<close>

theorem executeCode_empty_code_silent_counterexample:
  "kernel ready_empty = Some 7 \<and> outputArea ready_empty = Some 1
   \<and> editorRef ready_empty = Some []
   \<and> effects ready_empty (executeCode ready_empty)
       = [ConsoleLog [AStr ''Executing code:'', ACode (Some [])]]
   \<and> effects ready_empty (executeCode ready_empty) \<noteq> []"
  by (simp add: executeCode_no_code [where k = 7 and a = 1] ready_empty_fields)

text \<open>
  C9, amended. With a kernel and an OutputArea, when the editor is not mounted or yields
  the empty string, the call writes the one console line \<^verbatim>\<open>Executing code:\<close> with the
  code it read and does nothing else: no submission, no clearing of a model, no binding,
  no \<^verbatim>\<open>console.error\<close>, and the state apart from the trace is unchanged.
\<close>

theorem executeCode_empty_code_only_logs:
  assumes "kernel s = Some k" and "outputArea s = Some a"
    and "editorRef s = None \<or> editorRef s = Some []"
  shows "effects s (executeCode s) = [ConsoleLog [AStr ''Executing code:'', ACode (editorRef s)]]
     \<and> (\<forall>k' c f. RequestExecute k' c f \<notin> set (effects s (executeCode s)))
     \<and> (\<forall>a'. ModelClear a' \<notin> set (effects s (executeCode s)))
     \<and> (\<forall>xs. ConsoleError xs \<notin> set (effects s (executeCode s)))
     \<and> model_of (executeCode s) = model_of s
     \<and> (executeCode s)\<lparr>trace := trace s\<rparr> = s"
  by (simp add: executeCode_no_code [OF assms])

theorem executeCode_empty_code_only_logs_witness:
  "kernel ready_empty = Some 7 \<and> outputArea ready_empty = Some 1
   \<and> (editorRef ready_empty = None \<or> editorRef ready_empty = Some [])
   \<and> effects ready_empty (executeCode ready_empty)
       = [ConsoleLog [AStr ''Executing code:'', ACode (Some [])]]
   \<and> model_of (executeCode ready_empty) = model_of ready_empty"
  using executeCode_empty_code_only_logs [of ready_empty 7 1]
  by (simp add: ready_empty_fields)

section \<open>Hydration gating\<close>

lemma widgetState_iff:
  "widgetState m \<noteq> None \<longleftrightarrow>
     msg_type m = ''display_data'' \<and>
     (\<exists>d v. content_data m = Some d \<and> map_of d widget_state_mime = Some v \<and> truthy v)"
  by (auto simp add: widgetState_def split: option.splits)

lemma widgetState_value:
  "widgetState m = Some ws \<longleftrightarrow>
     msg_type m = ''display_data'' \<and>
     (\<exists>d. content_data m = Some d \<and> map_of d widget_state_mime = Some ws \<and> truthy ws)"
  by (auto simp add: widgetState_def split: option.splits)

lemma widgetState_needs_key: "widgetState m \<noteq> None \<Longrightarrow> contains_widget_state_key m"
  by (auto simp add: widgetState_def contains_widget_state_key_def split: option.splits if_splits)

lemma has_manager_reachable: "has_manager (run pre initial)"
  by (simp add: has_manager_run has_manager_initial)

text \<open>
  C4, as stated, fails: the message \<open>empty_state_msg\<close> is a \<^verbatim>\<open>display_data\<close> whose data
  contains the widget-state MIME key, with the empty string as its value. Delivered to the
  outstanding future of \<open>running\<close>, where a widget manager exists, it reaches the handler
  and \<^verbatim>\<open>set_state\<close> is not called: the code tests the value under the key for truth.
\<close>

theorem hydration_gating_counterexample:
  "contains_widget_state_key empty_state_msg
   \<and> onIOPub running 2 = Some 1 \<and> managerRef running = Some 0
   \<and> effects running (step (IOPub 2 empty_state_msg) running)
       = [BindFuture 1 2, ConsoleLog [AStr ''Message received:'', AMsg empty_state_msg]]
   \<and> filter is_set_state (effects running (step (IOPub 2 empty_state_msg) running)) = []"
proof -
  have w: "widgetState empty_state_msg = None"
    by (simp add: widgetState_def empty_state_msg_def)
  have c: "contains_widget_state_key empty_state_msg"
    by (simp add: contains_widget_state_key_def empty_state_msg_def)
  show ?thesis by (simp add: c running_fields handler_effects w)
qed

text \<open>
  C4, amended. For every message that reaches the handler after a history from the initial
  state, \<^verbatim>\<open>set_state\<close> is called exactly once if the message's kind is
  \<^verbatim>\<open>display_data\<close>, its content has \<^verbatim>\<open>data\<close> and the value under the widget-state
  MIME key is truthy (present, and not \<^verbatim>\<open>null\<close>, \<^verbatim>\<open>false\<close>, zero or the empty string),
  and it is called with that value; otherwise it is not called. In particular a message
  lacking the key never triggers it, and the handler completes either way.
\<close>

theorem hydration_gating:
  assumes "onIOPub (run pre initial) f = Some a"
  shows "length (filter is_set_state
           (effects (run pre initial) (step (IOPub f m) (run pre initial))))
         = (if msg_type m = ''display_data'' \<and>
               (\<exists>d v. content_data m = Some d \<and> map_of d widget_state_mime = Some v
                  \<and> truthy v)
            then 1 else 0)
     \<and> (\<forall>mgr ws p. SetState mgr ws p
            \<in> set (effects (run pre initial) (step (IOPub f m) (run pre initial)))
          \<longrightarrow> msg_type m = ''display_data'' \<and>
              (\<exists>d. content_data m = Some d \<and> map_of d widget_state_mime = Some ws))
     \<and> (\<not> contains_widget_state_key m \<longrightarrow>
          filter is_set_state
            (effects (run pre initial) (step (IOPub f m) (run pre initial))) = [])"
proof -
  let ?s = "run pre initial"
  have "has_manager ?s" by (rule has_manager_reachable)
  with assms obtain mgr where mgr: "managerRef ?s = Some mgr"
    by (auto simp add: has_manager_def)
  have eff: "effects ?s (step (IOPub f m) ?s) =
      BindFuture a f
      # (case widgetState m of None \<Rightarrow> [] | Some ws \<Rightarrow> [SetState mgr ws (heap_top ?s)])
      @ [ConsoleLog [AStr ''Message received:'', AMsg m]]"
    using assms by (simp add: handler_effects mgr split: option.split)
  show ?thesis
  proof (cases "widgetState m")
    case None
    then have "\<not> (msg_type m = ''display_data'' \<and>
               (\<exists>d v. content_data m = Some d \<and> map_of d widget_state_mime = Some v
                  \<and> truthy v))"
      using widgetState_iff [of m] by simp
    with None show ?thesis unfolding eff by simp
  next
    case (Some ws)
    then have 1: "msg_type m = ''display_data'' \<and>
               (\<exists>d v. content_data m = Some d \<and> map_of d widget_state_mime = Some v
                  \<and> truthy v)"
      using widgetState_iff [of m] by simp
    from Some have 2: "msg_type m = ''display_data'' \<and>
        (\<exists>d. content_data m = Some d \<and> map_of d widget_state_mime = Some ws)"
      using widgetState_value [of m ws] by blast
    from Some have 3: "contains_widget_state_key m"
      using widgetState_needs_key [of m] by simp
    from Some 1 2 3 show ?thesis unfolding eff by simp
  qed
qed

theorem hydration_gating_witness:
  "onIOPub (run [KernelStarted 7 Resolved True, EditorDidMount ''1+1'', RunCode] initial) 2
     = Some 1
   \<and> length (filter is_set_state
        (effects (run [KernelStarted 7 Resolved True, EditorDidMount ''1+1'', RunCode] initial)
           (step (IOPub 2 widget_state_msg)
              (run [KernelStarted 7 Resolved True, EditorDidMount ''1+1'', RunCode] initial))))
     = 1"
proof -
  have r: "run [KernelStarted 7 Resolved True, EditorDidMount ''1+1'', RunCode] initial = running"
    by (simp add: running_def)
  have h: "onIOPub (run [KernelStarted 7 Resolved True, EditorDidMount ''1+1'', RunCode] initial) 2
     = Some 1"
    unfolding r by (simp add: running_fields)
  have w: "msg_type widget_state_msg = ''display_data'' \<and>
      (\<exists>d v. content_data widget_state_msg = Some d \<and> map_of d widget_state_mime = Some v
         \<and> truthy v)"
    by (simp add: widget_state_msg_def widget_state_mime_def)
  from hydration_gating [OF h, of widget_state_msg] w h show ?thesis by presburger
qed

section \<open>The Channel Adapter: fidelity and single-slot registration\<close>

text \<open>
  C5. For the view \<open>classicComm c\<close> of a native Comm \<open>c\<close>: \<open>send\<close> makes one call of the
  Comm's \<^verbatim>\<open>send\<close> with the data, the metadata and the buffers it was given, whatever the
  callbacks argument is, and returns the Comm's id; \<open>close\<close> makes one call of the Comm's
  \<^verbatim>\<open>close\<close> and returns the id; \<open>open_comm\<close> writes one console line, calls nothing
  on the Comm, leaves the state apart from the trace unchanged, and returns the id. The
  view reports the Comm's id and target name.
\<close>

theorem classicComm_send_close_open:
  "fst (send (classicComm c) d cbs md bs s) = commId c
   \<and> effects s (snd (send (classicComm c) d cbs md bs s)) = [CommSend (commId c) d md bs]
   \<and> send (classicComm c) d cbs md bs s = send (classicComm c) d () md bs s
   \<and> fst (close (classicComm c) s) = commId c
   \<and> effects s (snd (close (classicComm c) s)) = [CommClose (commId c)]
   \<and> fst (open_comm (classicComm c) s) = commId c
   \<and> effects s (snd (open_comm (classicComm c) s))
       = [ConsoleLog [AStr ''Comm channel opened'', AStr (targetName c)]]
   \<and> (snd (open_comm (classicComm c) s))\<lparr>trace := trace s\<rparr> = s
   \<and> comm_id (classicComm c) = commId c
   \<and> target_name (classicComm c) = targetName c"
  by (simp add: send_def close_def open_comm_def classicComm_def)









section \<open>The two variants of the handler\<close>

lemma handler_reduced_effects:
  "effects s (onIOPub_handler_reduced a f m s) =
     [BindFuture a f, ConsoleLog [AStr ''Message received:'', AMsg m]]"
  by (simp add: onIOPub_handler_reduced_def effects_def emit_def Let_def)

lemma handler_without_state:
  "widgetState m = None \<Longrightarrow> onIOPub_handler a f m s = onIOPub_handler_reduced a f m s"
  by (simp add: onIOPub_handler_def onIOPub_handler_reduced_def Let_def)

lemma no_key_no_state: "\<not> contains_widget_state_key m \<Longrightarrow> widgetState m = None"
  using widgetState_needs_key [of m] by blast

lemma handle_stream_without_state:
  "\<forall>m \<in> set ms. widgetState m = None \<Longrightarrow>
     handle_stream (onIOPub_handler a f) ms s = handle_stream (onIOPub_handler_reduced a f) ms s"
  by (induction ms arbitrary: s) (simp_all add: handler_without_state)

text \<open>
  C10. On a message that is not a \<^verbatim>\<open>display_data\<close> carrying the widget-state MIME key,
  the handler of \<^verbatim>\<open>src/App.tsx\<close> and the handler of \<^verbatim>\<open>unnamed/part_000\<close> return the
  same state: both bind the OutputArea to the handler's future, write the console line
  \<^verbatim>\<open>Message received:\<close>, and change nothing else; no output model changes and no
  \<^verbatim>\<open>set_state\<close> is started. On a stream of such messages the two handlers agree.
\<close>

theorem handlers_agree_without_widget_state:
  assumes "\<not> contains_widget_state_key m"
    and "\<forall>m' \<in> set ms. \<not> contains_widget_state_key m'"
  shows "onIOPub_handler a f m s = onIOPub_handler_reduced a f m s
     \<and> effects s (onIOPub_handler a f m s)
         = [BindFuture a f, ConsoleLog [AStr ''Message received:'', AMsg m]]
     \<and> onIOPub_handler a f m s
         = s\<lparr>future_of := (future_of s)(a \<mapsto> f),
             trace := trace s @ [BindFuture a f, ConsoleLog [AStr ''Message received:'', AMsg m]]\<rparr>
     \<and> model_of (onIOPub_handler a f m s) = model_of s
     \<and> pending (onIOPub_handler a f m s) = pending s
     \<and> handle_stream (onIOPub_handler a f) ms s
         = handle_stream (onIOPub_handler_reduced a f) ms s"
proof -
  from assms(1) have w: "widgetState m = None" by (rule no_key_no_state)
  from assms(2) have ws: "\<forall>m' \<in> set ms. widgetState m' = None"
    by (simp add: no_key_no_state)
  have 1: "onIOPub_handler a f m s = onIOPub_handler_reduced a f m s"
    using w by (rule handler_without_state)
  have 2: "effects s (onIOPub_handler a f m s)
         = [BindFuture a f, ConsoleLog [AStr ''Message received:'', AMsg m]]"
    by (simp add: 1 handler_reduced_effects)
  have 3: "onIOPub_handler a f m s
         = s\<lparr>future_of := (future_of s)(a \<mapsto> f),
             trace := trace s @ [BindFuture a f, ConsoleLog [AStr ''Message received:'', AMsg m]]\<rparr>"
    by (simp add: 1 onIOPub_handler_reduced_def emit_def Let_def)
  have 4: "model_of (onIOPub_handler a f m s) = model_of s" by (simp add: 3)
  have 5: "pending (onIOPub_handler a f m s) = pending s" by (simp add: 3)
  have 6: "handle_stream (onIOPub_handler a f) ms s
         = handle_stream (onIOPub_handler_reduced a f) ms s"
    using ws by (rule handle_stream_without_state)
  from 1 2 3 4 5 6 show ?thesis by blast
qed

theorem handlers_agree_without_widget_state_witness:
  "\<not> contains_widget_state_key \<lparr>msg_type = ''stream'', content_data = None\<rparr>
   \<and> \<not> contains_widget_state_key
         \<lparr>msg_type = ''execute_result'', content_data = Some [(''text/plain'', JStr ''2'')]\<rparr>
   \<and> onIOPub_handler 1 2 \<lparr>msg_type = ''stream'', content_data = None\<rparr> running
       = onIOPub_handler_reduced 1 2 \<lparr>msg_type = ''stream'', content_data = None\<rparr> running
   \<and> handle_stream (onIOPub_handler 1 2)
        [\<lparr>msg_type = ''execute_result'', content_data = Some [(''text/plain'', JStr ''2'')]\<rparr>]
        running
       = handle_stream (onIOPub_handler_reduced 1 2)
        [\<lparr>msg_type = ''execute_result'', content_data = Some [(''text/plain'', JStr ''2'')]\<rparr>]
        running"
proof -
  have 1: "\<not> contains_widget_state_key \<lparr>msg_type = ''stream'', content_data = None\<rparr>"
    by (simp add: contains_widget_state_key_def)
  have 3: "\<not> contains_widget_state_key
         \<lparr>msg_type = ''execute_result'', content_data = Some [(''text/plain'', JStr ''2'')]\<rparr>"
    by (simp add: contains_widget_state_key_def)
  then have 2: "\<forall>m' \<in> set [\<lparr>msg_type = ''execute_result'',
                       content_data = Some [(''text/plain'', JStr ''2'')]\<rparr>].
         \<not> contains_widget_state_key m'"
    by simp
  from handlers_agree_without_widget_state [OF 1 2, of 1 2 running] 1 3
  show ?thesis by blast
qed

section \<open>Hydration failure\<close>

lemma effects_independent:
  "effects (s\<lparr>trace := tr\<rparr>) (run xs (s\<lparr>trace := tr\<rparr>)) = effects s (run xs s)"
  by (simp add: independent_run effects_def)

lemma core_independent:
  "(run xs (s\<lparr>trace := tr\<rparr>))\<lparr>trace := []\<rparr> = (run xs s)\<lparr>trace := []\<rparr>"
  by (simp add: independent_run)

lemma settled_rejected:
  "pending s p = Some ws \<Longrightarrow>
     set_state_settled p (Rejected err) s =
       s\<lparr>pending := (pending s)(p := None),
         trace := trace s @ [ConsoleError [AStr ''Failed to apply widget state:'', AErr err]]\<rparr>"
  by (simp add: set_state_settled_def emit_def Let_def)

lemma settled_resolved:
  "pending s p = Some ws \<Longrightarrow>
     set_state_settled p Resolved s =
       s\<lparr>pending := (pending s)(p := None),
         trace := trace s @ [ConsoleLog [AStr ''Widget state has been applied successfully:'',
                                         AJson ws]]\<rparr>"
  by (simp add: set_state_settled_def emit_def Let_def)

lemma run_append: "run (xs @ ys) s = run ys (run xs s)"
  by (induction xs arbitrary: s) simp_all

lemma effects_run_Cons:
  "effects s (run (x # xs) s) = effects s (step x s) @ effects (step x s) (run xs (step x s))"
proof -
  obtain es1 where e1: "trace (step x s) = trace s @ es1" using trace_step by blast
  obtain es2 where e2: "trace (run xs (step x s)) = trace (step x s) @ es2"
    using trace_run by blast
  show ?thesis by (simp add: effects_def e1 e2)
qed

lemma hydrating_eq: "hydrating = onIOPub_handler 1 2 widget_state_msg running"
proof -
  have "hydrating = run ([KernelStarted 7 Resolved True, EditorDidMount ''1+1'', RunCode]
      @ [IOPub 2 widget_state_msg]) initial"
    by (simp add: hydrating_def)
  also have "\<dots> = step (IOPub 2 widget_state_msg) running"
    by (simp only: run_append running_def run.simps)
  finally show ?thesis by (simp add: running_fields)
qed

lemma widgetState_widget_state_msg:
  "widgetState widget_state_msg = Some (JObj [(''model-A'', JObj [])])"
  by (simp add: widgetState_def widget_state_msg_def widget_state_mime_def)

lemma hydrating_fields:
  "pending hydrating 3 = Some (JObj [(''model-A'', JObj [])])"
  "heap_top hydrating = 4"
  by (simp_all add: hydrating_eq onIOPub_handler_def widgetState_widget_state_msg
      running_fields emit_def Let_def)

text \<open>
  C7. When the \<^verbatim>\<open>set_state\<close> promise of a widget-state payload rejects, the rejection
  is caught: the only effect is the console error \<^verbatim>\<open>Failed to apply widget state:\<close>
  with the error, the promise is consumed and nothing else changes; in particular the
  rejection removes no message handler. What follows does not depend on the failure: after
  a rejection, every later history has the same effects and ends in the same state, the
  trace apart, as after a successful hydration.
\<close>

theorem hydration_failure_is_contained:
  assumes "pending s p = Some ws"
  shows "effects s (set_state_settled p (Rejected err) s)
           = [ConsoleError [AStr ''Failed to apply widget state:'', AErr err]]
     \<and> (set_state_settled p (Rejected err) s)\<lparr>trace := trace s\<rparr>
           = s\<lparr>pending := (pending s)(p := None)\<rparr>
     \<and> onIOPub (set_state_settled p (Rejected err) s) = onIOPub s
     \<and> (\<forall>xs. effects (set_state_settled p (Rejected err) s)
                  (run xs (set_state_settled p (Rejected err) s))
               = effects (set_state_settled p Resolved s)
                  (run xs (set_state_settled p Resolved s))
             \<and> (run xs (set_state_settled p (Rejected err) s))\<lparr>trace := []\<rparr>
               = (run xs (set_state_settled p Resolved s))\<lparr>trace := []\<rparr>)"
proof -
  let ?core = "s\<lparr>pending := (pending s)(p := None)\<rparr>"
  let ?E = "[ConsoleError [AStr ''Failed to apply widget state:'', AErr err]]"
  let ?L = "[ConsoleLog [AStr ''Widget state has been applied successfully:'', AJson ws]]"
  have rej: "set_state_settled p (Rejected err) s = ?core\<lparr>trace := trace s @ ?E\<rparr>"
    using assms by (simp add: settled_rejected)
  have res: "set_state_settled p Resolved s = ?core\<lparr>trace := trace s @ ?L\<rparr>"
    using assms by (simp add: settled_resolved)
  have 1: "effects s (set_state_settled p (Rejected err) s) = ?E"
    by (simp add: rej effects_def)
  have 2: "(set_state_settled p (Rejected err) s)\<lparr>trace := trace s\<rparr> = ?core"
    by (simp add: rej)
  have 3: "onIOPub (set_state_settled p (Rejected err) s) = onIOPub s"
    by (simp add: rej)
  have 5: "\<forall>xs. effects (set_state_settled p (Rejected err) s)
                  (run xs (set_state_settled p (Rejected err) s))
               = effects (set_state_settled p Resolved s)
                  (run xs (set_state_settled p Resolved s))
             \<and> (run xs (set_state_settled p (Rejected err) s))\<lparr>trace := []\<rparr>
               = (run xs (set_state_settled p Resolved s))\<lparr>trace := []\<rparr>"
    unfolding rej res by (simp only: effects_independent core_independent) simp
  from 1 2 3 5 show ?thesis by blast
qed

theorem hydration_failure_is_contained_witness:
  "pending hydrating 3 = Some (JObj [(''model-A'', JObj [])])
   \<and> effects hydrating (set_state_settled 3 (Rejected ''bad state'') hydrating)
       = [ConsoleError [AStr ''Failed to apply widget state:'', AErr ''bad state'']]
   \<and> onIOPub (set_state_settled 3 (Rejected ''bad state'') hydrating) = onIOPub hydrating"
proof -
  have h: "pending hydrating 3 = Some (JObj [(''model-A'', JObj [])])"
    by (simp add: hydrating_fields)
  from hydration_failure_is_contained [OF h, of "''bad state''"] h show ?thesis by blast
qed

section \<open>Comm-open events\<close>

lemma targets_step:
  "\<forall>kt \<in> set (commTargets s). snd kt = widget_target \<Longrightarrow>
   \<forall>kt \<in> set (commTargets (step x s)). snd kt = widget_target"
proof (cases x)
  case (KernelStarted k ctx r)
  assume "\<forall>kt \<in> set (commTargets s). snd kt = widget_target"
  with KernelStarted show ?thesis
    by (simp add: kernel_started_def Let_def split: outcome.split)
next
  case RunCode
  assume "\<forall>kt \<in> set (commTargets s). snd kt = widget_target"
  with RunCode show ?thesis by (simp add: executeCode_def Let_def split: option.split)
next
  case (IOPub f m)
  assume "\<forall>kt \<in> set (commTargets s). snd kt = widget_target"
  with IOPub show ?thesis by (simp add: onIOPub_handler_def Let_def split: option.split)
qed (simp_all add: kernel_start_failed_def handleEditorDidMount_def
      set_state_settled_def future_done_def comm_open_def commTarget_callback_def
      comm_msg_def comm_closed_def on_msg_def on_close_def send_def close_def open_comm_def
      Let_def split: option.split outcome.split)

lemma targets_run:
  "\<forall>kt \<in> set (commTargets s). snd kt = widget_target \<Longrightarrow>
   \<forall>kt \<in> set (commTargets (run xs s)). snd kt = widget_target"
proof (induction xs arbitrary: s)
  case Nil
  then show ?case by simp
next
  case (Cons x xs)
  from Cons.prems have "\<forall>kt \<in> set (commTargets (step x s)). snd kt = widget_target"
    by (rule targets_step)
  then show ?case using Cons.IH by simp
qed

lemma targets_reachable:
  "(k, t) \<in> set (commTargets (run pre initial)) \<Longrightarrow> t = widget_target"
proof -
  have "\<forall>kt \<in> set (commTargets initial). snd kt = widget_target" by (simp add: initial_def)
  then have "\<forall>kt \<in> set (commTargets (run pre initial)). snd kt = widget_target"
    by (rule targets_run)
  moreover assume "(k, t) \<in> set (commTargets (run pre initial))"
  ultimately show ?thesis by auto
qed

lemma no_view_step:
  "\<not> is_comm_open x \<Longrightarrow> filter is_handle_comm_open (effects s (step x s)) = []"
proof (cases x)
  case (KernelStarted k ctx r)
  then show ?thesis
    by (simp add: kernel_started_def effects_def emit_def Let_def split: outcome.split)
next
  case RunCode
  then show ?thesis
    by (simp add: executeCode_def effects_def emit_def Let_def split: option.split)
next
  case (IOPub f m)
  then show ?thesis by (simp add: handler_effects split: option.split)
next
  case (CommOpen k c m)
  moreover assume "\<not> is_comm_open x"
  ultimately show ?thesis by simp
qed (simp_all add: kernel_start_failed_def handleEditorDidMount_def
      set_state_settled_def future_done_def
      comm_msg_def comm_closed_def on_msg_def on_close_def send_def close_def open_comm_def
      effects_def emit_def Let_def split: option.split outcome.split)

lemma no_view_run:
  "\<forall>x \<in> set xs. \<not> is_comm_open x \<Longrightarrow>
     filter is_handle_comm_open (effects s (run xs s)) = []"
proof (induction xs arbitrary: s)
  case Nil
  then show ?case by simp
next
  case (Cons x xs)
  then show ?case by (simp add: effects_run_Cons no_view_step del: run.simps)
qed

text \<open>
  C8. After any history from the initial state, a comm-open event that the kernel delivers
  to a registered comm target is an event for the target \<^verbatim>\<open>jupyter.widget\<close>, the widget
  manager exists, and the callback has exactly one effect: one call of
  \<^verbatim>\<open>handle_comm_open\<close> with the view built from the opened Comm and with the open
  message. The view carries the Comm's id and target name. No other event builds a view
  or calls \<^verbatim>\<open>handle_comm_open\<close>: a history without comm-open events adds no such call.
\<close>

theorem comm_open_builds_one_view:
  assumes "(k, targetName c) \<in> set (commTargets (run pre initial))"
  shows "targetName c = widget_target
     \<and> (\<exists>mgr. managerRef (run pre initial) = Some mgr
           \<and> effects (run pre initial) (step (CommOpen k c m) (run pre initial))
               = [HandleCommOpen mgr (classicComm c) m])
     \<and> length (filter is_handle_comm_open
          (effects (run pre initial) (step (CommOpen k c m) (run pre initial)))) = 1
     \<and> comm_id (classicComm c) = commId c \<and> target_name (classicComm c) = targetName c
     \<and> native (classicComm c) = c
     \<and> (\<forall>xs s. (\<forall>x \<in> set xs. \<not> is_comm_open x) \<longrightarrow>
            filter is_handle_comm_open (effects s (run xs s)) = [])"
proof -
  let ?s = "run pre initial"
  have 1: "targetName c = widget_target" using assms by (rule targets_reachable)
  have "has_manager ?s" by (rule has_manager_reachable)
  moreover from assms have "commTargets ?s \<noteq> []" by auto
  ultimately obtain mgr where mgr: "managerRef ?s = Some mgr"
    by (auto simp add: has_manager_def)
  have eff: "effects ?s (step (CommOpen k c m) ?s) = [HandleCommOpen mgr (classicComm c) m]"
    using assms by (simp add: comm_open_def commTarget_callback_def mgr)
  have 2: "\<exists>mgr. managerRef ?s = Some mgr
           \<and> effects ?s (step (CommOpen k c m) ?s) = [HandleCommOpen mgr (classicComm c) m]"
    using mgr eff by blast
  have 3: "length (filter is_handle_comm_open (effects ?s (step (CommOpen k c m) ?s))) = 1"
    unfolding eff by simp
  have 4: "comm_id (classicComm c) = commId c \<and> target_name (classicComm c) = targetName c
     \<and> native (classicComm c) = c"
    by (simp add: classicComm_def)
  have 5: "\<forall>xs s. (\<forall>x \<in> set xs. \<not> is_comm_open x) \<longrightarrow>
            filter is_handle_comm_open (effects s (run xs s)) = []"
    by (simp add: no_view_run)
  from 1 2 3 4 5 show ?thesis by blast
qed

theorem comm_open_builds_one_view_witness:
  "(7, targetName \<lparr>commId = ''c1'', targetName = ''jupyter.widget''\<rparr>)
     \<in> set (commTargets (run [KernelStarted 7 Resolved True] initial))
   \<and> effects (run [KernelStarted 7 Resolved True] initial)
       (step (CommOpen 7 \<lparr>commId = ''c1'', targetName = ''jupyter.widget''\<rparr> (JStr ''open''))
          (run [KernelStarted 7 Resolved True] initial))
     = [HandleCommOpen 0 (classicComm \<lparr>commId = ''c1'', targetName = ''jupyter.widget''\<rparr>)
          (JStr ''open'')]"
proof -
  have t: "(7, targetName \<lparr>commId = ''c1'', targetName = ''jupyter.widget''\<rparr>)
     \<in> set (commTargets (run [KernelStarted 7 Resolved True] initial))"
    by (simp add: kernel_started_def initial_def emit_def Let_def widget_target_def)
  have m: "managerRef (run [KernelStarted 7 Resolved True] initial) = Some 0"
    by (simp add: kernel_started_def initial_def emit_def Let_def)
  from comm_open_builds_one_view [OF t, of "JStr ''open''"] m t show ?thesis
    by (metis option.inject)
qed

end
